theory Spec2Isabelle
  imports Main "HOL-Library.Word"
begin

section \<open>The record I/O interface of librecordio (recordio.hh)\<close>

text \<open>
  The header declares two byte-stream interfaces (\<open>InStream\<close>, \<open>OutStream\<close>), the
  abstract class \<open>Record\<close>, the enumeration \<open>RecFormat\<close> and the two facade classes
  \<open>RecordReader\<close> and \<open>RecordWriter\<close>. The archive classes \<open>IArchive\<close> and
  \<open>OArchive\<close> are only forward-declared there; their definitions (archive.hh), the
  exception classes (exception.hh) and the member function bodies of the facade are not
  part of the sources at hand.
\<close>

subsection \<open>Bytes, tags, streams\<close>

type_synonym byte = "8 word"

text \<open>A tag is the \<open>const char*\<close> label handed to every archive call.\<close>

type_synonym tag = string

text \<open>
  \<open>InStream::read(void *buf, size_t buflen)\<close> and
  \<open>OutStream::write(const void *buf, size_t len)\<close> are pure virtual and return a
  signed \<open>ssize_t\<close>. A concrete stream of state \<open>'t\<close> is the method together with the
  state it acts on: \<open>read\<close> gets the buffer length and yields the count and the bytes put
  into the buffer; \<open>write\<close> gets the bytes of the buffer and yields the count.
\<close>

type_synonym ssize_t = int

record 't InStream =
  InStream_read :: "nat \<Rightarrow> 't \<Rightarrow> (ssize_t \<times> byte list) \<times> 't"

record 't OutStream =
  OutStream_write :: "byte list \<Rightarrow> 't \<Rightarrow> ssize_t \<times> 't"

subsection \<open>The format selector\<close>

text \<open>\<open>enum RecFormat { kBinary, kXML, kCSV };\<close>\<close>

datatype RecFormat = kBinary | kXML | kCSV

subsection \<open>Errors\<close>

text \<open>
  Modelled from the spec: the exception classes of exception.hh are missing; the error
  kinds are the four of the spec's error taxonomy. A member function that throws returns
  \<open>Inl\<close> of the error.
\<close>

datatype error = IOError | FormatError | EncodingError | ValidationError

subsection \<open>Archives\<close>

text \<open>
  Modelled from the spec: \<open>IArchive\<close> and \<open>OArchive\<close> are forward-declared only. An
  archive is a stateful cursor bound to one byte stream and one format: the variant that
  was constructed, and the mutable state of that object (the borrowed stream and the
  transient decode or encode state), which stays abstract.
\<close>

record 'i IArchive =
  ia_format :: RecFormat
  ia_state :: 'i

record 'o OArchive =
  oa_format :: RecFormat
  oa_state :: 'o

subsection \<open>The Record class\<close>

text \<open>
  \<^verbatim>\<open>
  class Record {
  public:
    virtual bool validate() const = 0;
    virtual void serialize(OArchive& archive, const char* tag) const = 0;
    virtual void deserialize(IArchive& archive, const char* tag) = 0;
    virtual const std::string& type() const = 0;
    virtual const std::string& signature() const = 0;
  };
  \<close>
  A concrete record class over instance states \<open>'s\<close> is the table of its five virtual
  member functions. Each takes the instance (\<open>this\<close>) first. The two traversals
  return the instance as they leave it, also when they throw: \<open>deserialize\<close> is not
  \<open>const\<close>, and the \<open>const\<close> of \<open>serialize\<close> does not keep an overrider
  from changing the instance (a \<open>mutable\<close> member, a \<open>const_cast\<close>), so the model
  does not take it to. \<open>validate\<close> and the two accessors are read as observations of
  the instance. An archive is passed by reference: the callee sees the archive object
  and returns the new state of that same object (it cannot put another object in its
  place).
\<close>

record ('s, 'i, 'o) Record =
  validate :: "'s \<Rightarrow> bool"
  serialize :: "'s \<Rightarrow> 'o OArchive \<Rightarrow> tag \<Rightarrow> (error + unit) \<times> 's \<times> 'o"
  deserialize :: "'s \<Rightarrow> 'i IArchive \<Rightarrow> tag \<Rightarrow> (error + unit) \<times> 's \<times> 'i"
  type :: "'s \<Rightarrow> string"
  signature :: "'s \<Rightarrow> string"

text \<open>
  Calls of a record's member functions, as an observer of the record would log them. A
  traversal call carries the variant of the archive it is handed and its tag.
\<close>

datatype call =
  Call_validate
  | Call_serialize RecFormat tag
  | Call_deserialize RecFormat tag
  | Call_type
  | Call_signature

fun is_serialize :: "call \<Rightarrow> bool" where
  "is_serialize (Call_serialize f t) = True"
| "is_serialize c = False"

fun is_deserialize :: "call \<Rightarrow> bool" where
  "is_deserialize (Call_deserialize f t) = True"
| "is_deserialize c = False"

text \<open>
  One virtual call each: the log of the call, what the call returns, the instance after
  the call and the archive object after the call. After a traversal the instance is the
  one the traversal hands back.
\<close>

definition call_type :: "('s, 'i, 'o) Record \<Rightarrow> 's \<Rightarrow> call list \<times> string \<times> 's" where
  "call_type R s = ([Call_type], type R s, s)"

definition call_serialize ::
  "('s, 'i, 'o) Record \<Rightarrow> 's \<Rightarrow> 'o OArchive \<Rightarrow> tag
    \<Rightarrow> call list \<times> (error + unit) \<times> 's \<times> 'o OArchive" where
  "call_serialize R s a t =
     (case serialize R s a t of
        (r, s', st) \<Rightarrow> ([Call_serialize (oa_format a) t], r, s', a\<lparr>oa_state := st\<rparr>))"

definition call_deserialize ::
  "('s, 'i, 'o) Record \<Rightarrow> 's \<Rightarrow> 'i IArchive \<Rightarrow> tag
    \<Rightarrow> call list \<times> (error + unit) \<times> 's \<times> 'i IArchive" where
  "call_deserialize R s a t =
     (case deserialize R s a t of
        (r, s', st) \<Rightarrow> ([Call_deserialize (ia_format a) t], r, s', a\<lparr>ia_state := st\<rparr>))"

subsection \<open>The facade: RecordReader and RecordWriter\<close>

text \<open>
  \<^verbatim>\<open>
  class RecordReader {
  private:
    IArchive* mpArchive;
  public:
    RecordReader(InStream& stream, RecFormat f);
    virtual void read(hadoop::Record& record);
    virtual ~RecordReader();
  };
  \<close>
  and likewise \<open>RecordWriter\<close> with an \<open>OArchive* mpArchive\<close>, a constructor from an
  \<open>OutStream&\<close> and a \<open>RecFormat\<close>, and \<open>write(hadoop::Record& record)\<close>. The only
  data member is the private archive pointer; the format is a constructor argument and
  no other member function takes one.
\<close>

record 'i RecordReader =
  mpArchive :: "'i IArchive"

record 'o RecordWriter =
  mpArchive :: "'o OArchive"

text \<open>
  Modelled from the spec: the constructor bodies are missing. A facade is constructed
  from a byte stream and a \<open>RecFormat\<close>; it selects and owns the archive of the matching
  variant. \<open>mk f stream\<close> stands for the constructor of the archive class of variant
  \<open>f\<close> applied to the stream.
\<close>

definition RecordReader_new ::
  "(RecFormat \<Rightarrow> 't \<Rightarrow> 'i) \<Rightarrow> 't \<Rightarrow> RecFormat \<Rightarrow> 'i RecordReader" where
  "RecordReader_new mk stream f =
     \<lparr>RecordReader.mpArchive = \<lparr>ia_format = f, ia_state = mk f stream\<rparr>\<rparr>"

definition RecordWriter_new ::
  "(RecFormat \<Rightarrow> 't \<Rightarrow> 'o) \<Rightarrow> 't \<Rightarrow> RecFormat \<Rightarrow> 'o RecordWriter" where
  "RecordWriter_new mk stream f =
     \<lparr>RecordWriter.mpArchive = \<lparr>oa_format = f, oa_state = mk f stream\<rparr>\<rparr>"

text \<open>
  Modelled from the spec: the bodies of \<open>RecordReader::read\<close> and
  \<open>RecordWriter::write\<close> are missing. \<open>read(record)\<close> performs
  \<open>record.deserialize(archive, record.type())\<close> and \<open>write(record)\<close> performs
  \<open>record.serialize(archive, record.type())\<close>, on the facade's own archive; an error
  of the call is the error of \<open>read\<close> or \<open>write\<close>. The result is the log of the
  calls made on the record, the outcome, the record after the call (it is passed by
  reference) and the facade after the call.
\<close>

definition RecordReader_read ::
  "'i RecordReader \<Rightarrow> ('s, 'i, 'o) Record \<Rightarrow> 's
    \<Rightarrow> call list \<times> (error + unit) \<times> 's \<times> 'i RecordReader" where
  "RecordReader_read rd R s =
     (case call_type R s of
        (c1, t, s1) \<Rightarrow>
          (case call_deserialize R s1 (RecordReader.mpArchive rd) t of
             (c2, r, s2, a) \<Rightarrow> (c1 @ c2, r, s2, rd\<lparr>RecordReader.mpArchive := a\<rparr>)))"

definition RecordWriter_write ::
  "'o RecordWriter \<Rightarrow> ('s, 'i, 'o) Record \<Rightarrow> 's
    \<Rightarrow> call list \<times> (error + unit) \<times> 's \<times> 'o RecordWriter" where
  "RecordWriter_write wr R s =
     (case call_type R s of
        (c1, t, s1) \<Rightarrow>
          (case call_serialize R s1 (RecordWriter.mpArchive wr) t of
             (c2, r, s2, a) \<Rightarrow> (c1 @ c2, r, s2, wr\<lparr>RecordWriter.mpArchive := a\<rparr>)))"

text \<open>
  The lifetime of a facade: after its construction, any number of \<open>read\<close> (or
  \<open>write\<close>) calls, each on a record of its own; a call that fails leaves the facade
  in use.
\<close>

fun RecordReader_reads ::
  "'i RecordReader \<Rightarrow> ('s, 'i, 'o) Record \<Rightarrow> 's list \<Rightarrow> 'i RecordReader" where
  "RecordReader_reads rd R [] = rd"
| "RecordReader_reads rd R (s # ss) =
     (case RecordReader_read rd R s of (cs, r, s', rd') \<Rightarrow> RecordReader_reads rd' R ss)"

fun RecordWriter_writes ::
  "'o RecordWriter \<Rightarrow> ('s, 'i, 'o) Record \<Rightarrow> 's list \<Rightarrow> 'o RecordWriter" where
  "RecordWriter_writes wr R [] = wr"
| "RecordWriter_writes wr R (s # ss) =
     (case RecordWriter_write wr R s of (cs, r, s', wr') \<Rightarrow> RecordWriter_writes wr' R ss)"

section \<open>A concrete record class\<close>

text \<open>
  Modelled from the spec: the member functions of \<open>OArchive\<close> are missing. These are
  the calls a record's \<open>serialize\<close> issues on an output archive, after the spec's list
  of tagged operations: writes of 8, 32 and 64-bit integers, strings and buffers (a
  string is its UTF-8 bytes), and the six structural markers.
\<close>

datatype ocall =
  WriteByte tag "8 word"
  | WriteInt tag "32 word"
  | WriteLong tag "64 word"
  | WriteString tag "byte list"
  | WriteBuffer tag "byte list"
  | StartRecord tag
  | EndRecord tag
  | StartVector tag nat
  | EndVector tag
  | StartMap tag nat
  | EndMap tag

text \<open>
  Concrete record classes are generated outside this library. For evaluating the
  definitions at concrete inputs, here is one by hand: a record with the single 32-bit
  field \<open>id\<close>. Its output archive state is the sequence of calls issued on the archive
  so far; its input archive state is the sequence of integers still to be read, and
  reading past the end fails.
\<close>

definition IntRecord :: "(32 word, 32 word list, ocall list) Record" where
  "IntRecord =
     \<lparr>validate = (\<lambda>s. True),
      serialize = (\<lambda>s a t.
        (Inr (), s, oa_state a @ [StartRecord t, WriteInt ''id'' s, EndRecord t])),
      deserialize = (\<lambda>s a t.
        (case ia_state a of
           [] \<Rightarrow> (Inl IOError, s, [])
         | v # vs \<Rightarrow> (Inr (), v, vs))),
      type = (\<lambda>s. ''IntRecord''),
      signature = (\<lambda>s. ''LIntRecord(i)'')\<rparr>"

section \<open>Properties of the facade\<close>

lemma RecordReader_read_eq:
  "RecordReader_read rd R s =
     ([Call_type, Call_deserialize (ia_format (RecordReader.mpArchive rd)) (type R s)],
      fst (deserialize R s (RecordReader.mpArchive rd) (type R s)),
      fst (snd (deserialize R s (RecordReader.mpArchive rd) (type R s))),
      rd\<lparr>RecordReader.mpArchive := (RecordReader.mpArchive rd)
           \<lparr>ia_state := snd (snd (deserialize R s (RecordReader.mpArchive rd) (type R s)))\<rparr>\<rparr>)"
  by (simp add: RecordReader_read_def call_type_def call_deserialize_def split: prod.splits)

lemma RecordWriter_write_eq:
  "RecordWriter_write wr R s =
     ([Call_type, Call_serialize (oa_format (RecordWriter.mpArchive wr)) (type R s)],
      fst (serialize R s (RecordWriter.mpArchive wr) (type R s)),
      fst (snd (serialize R s (RecordWriter.mpArchive wr) (type R s))),
      wr\<lparr>RecordWriter.mpArchive := (RecordWriter.mpArchive wr)
           \<lparr>oa_state := snd (snd (serialize R s (RecordWriter.mpArchive wr) (type R s)))\<rparr>\<rparr>)"
  by (simp add: RecordWriter_write_def call_type_def call_serialize_def split: prod.splits)

lemma RecordReader_read_format:
  "RecordReader_read rd R s = (cs, r, s', rd') \<Longrightarrow>
     ia_format (RecordReader.mpArchive rd') = ia_format (RecordReader.mpArchive rd)"
  by (simp add: RecordReader_read_eq) auto

lemma RecordWriter_write_format:
  "RecordWriter_write wr R s = (cs, r, s', wr') \<Longrightarrow>
     oa_format (RecordWriter.mpArchive wr') = oa_format (RecordWriter.mpArchive wr)"
  by (simp add: RecordWriter_write_eq) auto

lemma RecordReader_reads_format:
  "ia_format (RecordReader.mpArchive (RecordReader_reads rd R ss)) = ia_format (RecordReader.mpArchive rd)"
proof (induction ss arbitrary: rd)
  case Nil
  show ?case by simp
next
  case (Cons s ss)
  obtain cs r s' rd' where step: "RecordReader_read rd R s = (cs, r, s', rd')"
    by (cases "RecordReader_read rd R s") auto
  have "ia_format (RecordReader.mpArchive (RecordReader_reads rd' R ss)) = ia_format (RecordReader.mpArchive rd')"
    by (rule Cons.IH)
  with step show ?case
    by (simp add: RecordReader_read_format [OF step])
qed

lemma RecordWriter_writes_format:
  "oa_format (RecordWriter.mpArchive (RecordWriter_writes wr R ss)) = oa_format (RecordWriter.mpArchive wr)"
proof (induction ss arbitrary: wr)
  case Nil
  show ?case by simp
next
  case (Cons s ss)
  obtain cs r s' wr' where step: "RecordWriter_write wr R s = (cs, r, s', wr')"
    by (cases "RecordWriter_write wr R s") auto
  have "oa_format (RecordWriter.mpArchive (RecordWriter_writes wr' R ss)) = oa_format (RecordWriter.mpArchive wr')"
    by (rule Cons.IH)
  with step show ?case
    by (simp add: RecordWriter_write_format [OF step])
qed

lemma RecFormat_closed: "(UNIV :: RecFormat set) = {kBinary, kXML, kCSV}"
proof
  show "(UNIV :: RecFormat set) \<subseteq> {kBinary, kXML, kCSV}"
  proof
    fix f :: RecFormat
    show "f \<in> {kBinary, kXML, kCSV}" by (cases f) simp_all
  qed
qed simp

lemma Record_operations:
  fixes R R' :: "('s, 'i, 'o) Record"
  shows "(R = R') =
     (validate R = validate R' \<and> serialize R = serialize R' \<and>
      deserialize R = deserialize R' \<and> type R = type R' \<and> signature R = signature R')"
  by (cases R, cases R') auto

text \<open>
  C3. One call of \<open>RecordReader::read(record)\<close> performs exactly one
  \<open>record.deserialize(archive, record.type())\<close>, and one call of
  \<open>RecordWriter::write(record)\<close> performs exactly one
  \<open>record.serialize(archive, record.type())\<close>: the log of the calls made on the
  record holds the call of \<open>type()\<close> and then a single traversal call, whose tag is the
  record's type name and whose archive is the facade's own, of the format chosen at
  construction; the outcome, the record and the archive state after the facade call are
  those of that one traversal call. Nothing is batched.
\<close>

theorem facade_one_traversal:
  "fst (RecordReader_read rd R s) =
      [Call_type, Call_deserialize (ia_format (RecordReader.mpArchive rd)) (type R s)]
   \<and> length (filter is_deserialize (fst (RecordReader_read rd R s))) = 1
   \<and> filter is_serialize (fst (RecordReader_read rd R s)) = []
   \<and> snd (RecordReader_read rd R s) =
      (case deserialize R s (RecordReader.mpArchive rd) (type R s) of
         (r, s', st) \<Rightarrow>
           (r, s', rd\<lparr>RecordReader.mpArchive := (RecordReader.mpArchive rd)\<lparr>ia_state := st\<rparr>\<rparr>))
   \<and> fst (RecordReader_read (RecordReader_new mk stream f) R s) =
      [Call_type, Call_deserialize f (type R s)]
   \<and> fst (RecordWriter_write wr R s) =
      [Call_type, Call_serialize (oa_format (RecordWriter.mpArchive wr)) (type R s)]
   \<and> length (filter is_serialize (fst (RecordWriter_write wr R s))) = 1
   \<and> filter is_deserialize (fst (RecordWriter_write wr R s)) = []
   \<and> snd (RecordWriter_write wr R s) =
      (case serialize R s (RecordWriter.mpArchive wr) (type R s) of
         (r, s', st) \<Rightarrow>
           (r, s', wr\<lparr>RecordWriter.mpArchive := (RecordWriter.mpArchive wr)\<lparr>oa_state := st\<rparr>\<rparr>))
   \<and> fst (RecordWriter_write (RecordWriter_new mk' stream' f) R s) =
      [Call_type, Call_serialize f (type R s)]"
  by (simp add: RecordReader_read_eq RecordWriter_write_eq RecordReader_new_def
      RecordWriter_new_def split: prod.splits)

theorem facade_one_traversal_witness:
  "RecordReader_read (RecordReader_new (\<lambda>f st. st) [42, 7] kBinary) IntRecord 0 =
      ([Call_type, Call_deserialize kBinary ''IntRecord''], Inr (), 42,
       \<lparr>RecordReader.mpArchive = \<lparr>ia_format = kBinary, ia_state = [7]\<rparr>\<rparr>)
   \<and> RecordWriter_write (RecordWriter_new (\<lambda>f st. st) [] kBinary) IntRecord 42 =
      ([Call_type, Call_serialize kBinary ''IntRecord''], Inr (), 42,
       \<lparr>RecordWriter.mpArchive = \<lparr>oa_format = kBinary, oa_state =
          [StartRecord ''IntRecord'', WriteInt ''id'' 42, EndRecord ''IntRecord'']\<rparr>\<rparr>)"
  using facade_one_traversal [of "RecordReader_new (\<lambda>f st. st) [42, 7] kBinary" IntRecord 0
      "\<lambda>f st. st" "[42, 7]" kBinary "RecordWriter_new (\<lambda>f st. st) [] kBinary"
      "\<lambda>f st. st" "[]"]
  by (simp add: RecordReader_read_eq RecordWriter_write_eq RecordReader_new_def
      RecordWriter_new_def IntRecord_def)

text \<open>
  C9. The \<open>Record\<close> interface consists of exactly the operations \<open>validate\<close>,
  \<open>serialize\<close>, \<open>deserialize\<close> and the identity accessors \<open>type\<close> and
  \<open>signature\<close>: a record class is determined by these and nothing else. \<open>RecFormat\<close>
  is the closed enumeration of the three distinct values \<open>kBinary\<close>, \<open>kXML\<close>,
  \<open>kCSV\<close>. The format of a reader or writer is the one given at its construction, and
  it is still that format after any sequence of \<open>read\<close> or \<open>write\<close> calls.
\<close>

theorem Record_interface_RecFormat_fixed:
  fixes R R' :: "('s, 'i, 'o) Record"
  shows
  "((R = R') =
      (validate R = validate R' \<and> serialize R = serialize R' \<and>
       deserialize R = deserialize R' \<and> type R = type R' \<and> signature R = signature R'))
   \<and> (UNIV :: RecFormat set) = {kBinary, kXML, kCSV}
   \<and> distinct [kBinary, kXML, kCSV]
   \<and> ia_format (RecordReader.mpArchive (RecordReader_new mk stream f)) = f
   \<and> ia_format (RecordReader.mpArchive (RecordReader_reads (RecordReader_new mk stream f) R ss)) = f
   \<and> oa_format (RecordWriter.mpArchive (RecordWriter_new mk' stream' f)) = f
   \<and> oa_format (RecordWriter.mpArchive (RecordWriter_writes (RecordWriter_new mk' stream' f) R ss)) = f"
proof -
  have "ia_format (RecordReader.mpArchive (RecordReader_new mk stream f)) = f"
    and "oa_format (RecordWriter.mpArchive (RecordWriter_new mk' stream' f)) = f"
    by (simp_all add: RecordReader_new_def RecordWriter_new_def)
  then show ?thesis
    using Record_operations [of R R'] RecFormat_closed
    by (simp add: RecordReader_reads_format RecordWriter_writes_format)
qed

theorem Record_interface_RecFormat_fixed_witness:
  "RecordReader.mpArchive
      (RecordReader_reads (RecordReader_new (\<lambda>f st. st) [42, 7] kCSV) IntRecord [0, 0, 0]) =
      \<lparr>ia_format = kCSV, ia_state = []\<rparr>
   \<and> RecordWriter.mpArchive
      (RecordWriter_writes (RecordWriter_new (\<lambda>f st. st) [] kXML) IntRecord [5]) =
      \<lparr>oa_format = kXML, oa_state =
         [StartRecord ''IntRecord'', WriteInt ''id'' 5, EndRecord ''IntRecord'']\<rparr>"
  using Record_interface_RecFormat_fixed [of IntRecord IntRecord "\<lambda>f st. st" "[42, 7]" kCSV
      "[0, 0, 0]" "\<lambda>f st. st" "[]"]
  by (simp add: RecordReader_read_eq RecordWriter_write_eq RecordReader_new_def
      RecordWriter_new_def IntRecord_def)

end
